theory Spec2Isabelle
  imports Main "HOL-Library.AList" "HOL-Library.Word"
begin

section \<open>Values crossing the API boundary\<close>

text \<open>
  The service returns plain JavaScript objects. An object is an association list from
  property names to values, in insertion order; a property whose value is
  \<open>undefined\<close> is present with the value \<open>JUndefined\<close>.
\<close>

datatype json =
    JUndefined
  | JString string
  | JNumber int
  | JBool bool
  | JObject "(string \<times> json) list"

type_synonym js_object = "(string \<times> json) list"

text \<open>
  An object literal \<open>{ ...base, k1: v1, k2: v2 }\<close>: the properties of \<open>base\<close>, then each
  listed property assigned in order (an existing key keeps its place and takes the new value).
\<close>

definition assign :: "js_object \<Rightarrow> js_object \<Rightarrow> js_object" where
  "assign base props = fold (\<lambda>(k, v). AList.update k v) props base"

text \<open>A property read \<open>o.k\<close>, and the property names of an object.\<close>

definition getProp :: "js_object \<Rightarrow> string \<Rightarrow> json option" where
  "getProp obj k = map_of obj k"

definition keys :: "js_object \<Rightarrow> string set" where
  "keys obj = fst ` set obj"

text \<open>An optional string as a property value.\<close>

definition optString :: "string option \<Rightarrow> json" where
  "optString s = (case s of None \<Rightarrow> JUndefined | Some v \<Rightarrow> JString v)"

section \<open>Errors\<close>

text \<open>
  Modelled from the spec: the error codes of \<open>errors/error.entity.ts\<close> (not among the
  sources) that this service uses. \<open>findOneOrFail\<close> of the mapping framework raises its
  own not-found error, which reaches the caller as NotFound.
\<close>

datatype APIErrorCode = INVALID_INPUT | NOT_FOUND

datatype error =
    NotFoundError
  | APIError string APIErrorCode

section \<open>Request bodies\<close>

text \<open>
  Modelled from the spec: the request shapes of \<open>dtos/artifact-create.ts\<close> and
  \<open>dtos/artifact-update.ts\<close> (not among the sources). An optional property of the create
  body is an option (\<open>None\<close> for \<open>undefined\<close>). A property of the update body is
  tri-state: omitted, explicitly \<open>null\<close>, or a value.
\<close>

datatype 'a patch = Omitted | Null | Value 'a

record ArtifactCreateBody =
  thread_id :: string
  message_id :: string
  type :: string
  source_code :: "string option"
  metadata :: "js_object option"
  shared :: "bool option"
  name :: "string option"
  description :: "string option"

record ArtifactUpdateBody =
  metadata :: "js_object patch"
  name :: "string patch"
  description :: "string patch"
  shared :: "bool option"

section \<open>Entities\<close>

text \<open>
  Modelled from the spec: the enum \<open>ArtifactType\<close> of \<open>entities/artifact.entity.ts\<close>
  (not among the sources) is a string-valued discriminator with the single member
  \<open>APP\<close>, serialised as \<open>"app"\<close>, and is extensible. The discriminator column holds a string.
\<close>

type_synonym ArtifactType = string

definition APP :: ArtifactType where
  "APP = ''app''"

text \<open>
  Modelled from the spec: the persisted shape of the entities (the entity classes
  \<open>Thread\<close>, \<open>Message\<close>, \<open>Artifact\<close>, \<open>AppArtifact\<close> and their base entity are not
  among the sources). Every entity has an id, a creation time and a soft-delete marker;
  \<open>createdAt\<close> and \<open>deletedAt\<close> are milliseconds since the epoch. References to the
  thread and the message are held by id; an optional property is an option. The
  subtype's \<open>sourceCode\<close> is a nullable column of the one artifact table.
\<close>

record BaseEntity =
  id' :: string
  createdAt :: int
  deletedAt :: "int option"

type_synonym Thread = BaseEntity

record Message = BaseEntity +
  thread :: string

record Artifact = BaseEntity +
  type :: ArtifactType
  thread :: string
  message :: string
  metadata :: "js_object option"
  name :: "string option"
  description :: "string option"
  accessSecret :: "string option"
  sourceCode :: "string option"

section \<open>Serialisation\<close>

text \<open>
  \<open>toSharedDto\<close>: the common object is built first; the \<open>switch\<close> on the type has the
  single case \<open>APP\<close> and no default, so for any other type the function reaches its end
  and returns \<open>undefined\<close> (here \<open>None\<close>). The share URL tests the secret for
  truthiness: an absent secret and the empty string both give the empty URL.
  \<open>dayjs(d).unix()\<close> is the number of whole seconds.
\<close>

definition share_url :: "Artifact \<Rightarrow> string" where
  "share_url artifact =
     (case accessSecret artifact of
        None \<Rightarrow> ''''
      | Some secret \<Rightarrow>
          if secret = '''' then ''''
          else ''/v1/artifacts/'' @ id' artifact @ ''/shared?secret='' @ secret)"

definition toSharedDto :: "Artifact \<Rightarrow> js_object option" where
  "toSharedDto artifact =
     (let dto =
        [(''id'', JString (id' artifact)),
         (''object'', JString ''artifact.shared''),
         (''type'', JString (Artifact.type artifact)),
         (''metadata'',
            JObject (case Artifact.metadata artifact of None \<Rightarrow> [] | Some m \<Rightarrow> m)),
         (''created_at'', JNumber (createdAt artifact div 1000)),
         (''source_code'', optString (sourceCode artifact)),
         (''share_url'', JString (share_url artifact)),
         (''name'', optString (Artifact.name artifact)),
         (''description'',
            JString (case Artifact.description artifact of None \<Rightarrow> '''' | Some d \<Rightarrow> d))]
      in if Artifact.type artifact = APP
         then Some (assign dto [(''source_code'', optString (sourceCode artifact))])
         else None)"

text \<open>\<open>toDto\<close>: spreading \<open>undefined\<close> contributes no property.\<close>

definition toDto :: "Artifact \<Rightarrow> js_object" where
  "toDto artifact =
     assign (case toSharedDto artifact of None \<Rightarrow> [] | Some dto \<Rightarrow> dto)
       [(''object'', JString ''artifact''),
        (''thread_id'', JString (Artifact.thread artifact)),
        (''message_id'', JString (message artifact))]"

section \<open>The world the service runs in\<close>

text \<open>
  The tables of the datastore, and what the service reads from its surroundings:
  \<^item> \<open>principalAccess\<close>: the ids of the entities the calling principal may access (the
    filter of that name is declared on the base entity, not among the sources; it is a
    parameter here);
  \<^item> \<open>now\<close>: the clock;
  \<^item> \<open>objectIds\<close>, \<open>issued\<close>: the ids the entity constructor hands out, and how many
    it has handed out;
  \<^item> \<open>entropy\<close>, \<open>drawn\<close>: the bytes \<open>crypto.randomBytes\<close> returns, as a tape, and
    how many have been drawn.
\<close>

record World =
  threads :: "Thread list"
  messages :: "Message list"
  artifacts :: "Artifact list"
  principalAccess :: "string \<Rightarrow> bool"
  now :: int
  objectIds :: "nat \<Rightarrow> string"
  issued :: nat
  entropy :: "nat \<Rightarrow> 8 word"
  drawn :: nat

section \<open>The mapping framework\<close>

text \<open>
  Modelled from the spec: the filters declared on the base entity (not among the
  sources). Soft-deleted rows are excluded from every query; rows outside the caller's
  access are excluded unless the query switches \<open>principalAccess\<close> off.
\<close>

definition filters :: "bool \<Rightarrow> World \<Rightarrow> 'a BaseEntity_scheme \<Rightarrow> bool" where
  "filters principalAccessOn w e =
     (deletedAt e = None \<and> (principalAccessOn \<longrightarrow> principalAccess w (id' e)))"

text \<open>
  \<open>findOneOrFail\<close>: the first row that satisfies the condition and the active filters,
  or the framework's not-found error.
\<close>

definition findOneOrFail :: "('e \<Rightarrow> bool) \<Rightarrow> ('e \<Rightarrow> bool) \<Rightarrow> 'e list \<Rightarrow> error + 'e" where
  "findOneOrFail cond active rows =
     (case find (\<lambda>e. cond e \<and> active e) rows of
        None \<Rightarrow> Inl NotFoundError
      | Some e \<Rightarrow> Inr e)"

text \<open>
  \<open>flush\<close> writes a changed, managed artifact back: the row with its id takes its state.
\<close>

definition flush :: "Artifact \<Rightarrow> World \<Rightarrow> World" where
  "flush artifact w =
     w\<lparr>artifacts := map (\<lambda>row. if id' row = id' artifact then artifact else row) (artifacts w)\<rparr>"

text \<open>\<open>persistAndFlush\<close> of a new artifact inserts its row.\<close>

definition persistAndFlush :: "Artifact \<Rightarrow> World \<Rightarrow> World" where
  "persistAndFlush artifact w = w\<lparr>artifacts := artifacts w @ [artifact]\<rparr>"

section \<open>Secrets\<close>

text \<open>
  \<open>Buffer.toString('base64url')\<close>: the alphabet of RFC 4648, section 5, without padding.
  Three bytes give four characters; a rest of two bytes gives three, a rest of one gives two.
\<close>

definition alphabet :: string where
  "alphabet = ''ABCDEFGHIJKLMNOPQRSTUVWXYZabcdefghijklmnopqrstuvwxyz0123456789-_''"

definition digit :: "nat \<Rightarrow> char" where
  "digit n = alphabet ! n"

fun base64url :: "8 word list \<Rightarrow> string" where
  "base64url (a # b # c # rest) =
     [digit (unat a div 4),
      digit (unat a mod 4 * 16 + unat b div 16),
      digit (unat b mod 16 * 4 + unat c div 64),
      digit (unat c mod 64)] @ base64url rest"
| "base64url [a, b] =
     [digit (unat a div 4),
      digit (unat a mod 4 * 16 + unat b div 16),
      digit (unat b mod 16 * 4)]"
| "base64url [a] =
     [digit (unat a div 4),
      digit (unat a mod 4 * 16)]"
| "base64url [] = []"

definition randomBytes :: "nat \<Rightarrow> World \<Rightarrow> 8 word list \<times> World" where
  "randomBytes n w = (map (entropy w) [drawn w ..< drawn w + n], w\<lparr>drawn := drawn w + n\<rparr>)"

definition getSecret :: "World \<Rightarrow> string \<times> World" where
  "getSecret w = (let (bytes, w') = randomBytes 24 w in (base64url bytes, w'))"

section \<open>Helpers of the repository\<close>

text \<open>
  Modelled from the spec: \<open>getUpdatedValue\<close> of \<open>utils/update.ts\<close> (not among the
  sources), the helper that applies an optional field update: an omitted value is a
  no-op, an explicit \<open>null\<close> clears, a value is set.
\<close>

definition getUpdatedValue :: "'a patch \<Rightarrow> 'a option \<Rightarrow> 'a option" where
  "getUpdatedValue new old =
     (case new of Omitted \<Rightarrow> old | Null \<Rightarrow> None | Value v \<Rightarrow> Some v)"

text \<open>
  Modelled from the spec: \<open>createDeleteResponse\<close> of \<open>utils/delete.ts\<close> (not among the
  sources) builds the deletion confirmation, a record that references the id and the
  resource kind.
\<close>

record DeleteResponse =
  deleted_id :: string
  deleted_kind :: string

definition createDeleteResponse :: "string \<Rightarrow> string \<Rightarrow> DeleteResponse" where
  "createDeleteResponse i kind = \<lparr>deleted_id = i, deleted_kind = kind\<rparr>"

text \<open>
  Modelled from the spec: the method \<open>delete\<close> of the base entity (not among the sources)
  marks the entity deleted and keeps its row.
\<close>

definition delete :: "int \<Rightarrow> 'a BaseEntity_scheme \<Rightarrow> 'a BaseEntity_scheme" where
  "delete t e = e\<lparr>deletedAt := Some t\<rparr>"

text \<open>
  Modelled from the spec: the constructor of \<open>AppArtifact\<close> (not among the sources)
  takes the given properties, fixes the type to \<open>APP\<close>, and the base entity assigns the
  id and the creation time.
\<close>

definition newAppArtifact ::
  "string \<Rightarrow> int \<Rightarrow> string \<Rightarrow> string \<Rightarrow> string option \<Rightarrow> js_object option \<Rightarrow>
   string option \<Rightarrow> string option \<Rightarrow> string option \<Rightarrow> Artifact" where
  "newAppArtifact i t thr msg code meta secret nm descr =
     \<lparr>id' = i, createdAt = t, deletedAt = None, type = APP, thread = thr, message = msg,
      metadata = meta, name = nm, description = descr, accessSecret = secret,
      sourceCode = code\<rparr>"

section \<open>The artifact service\<close>

text \<open>
  Each operation takes the world and returns its result, or the error it throws, with
  the world it leaves behind. \<open>listArtifacts\<close> only hands the table to the pagination
  helpers, which are not among the sources; it is left out.
\<close>

definition createArtifact :: "ArtifactCreateBody \<Rightarrow> World \<Rightarrow> (error + js_object) \<times> World" where
  "createArtifact body w =
     (case findOneOrFail (\<lambda>t. id' t = thread_id body) (filters True w) (threads w) of
        Inl e \<Rightarrow> (Inl e, w)
      | Inr thr \<Rightarrow>
          (case findOneOrFail (\<lambda>m. id' m = message_id body) (filters True w) (messages w) of
             Inl e \<Rightarrow> (Inl e, w)
           | Inr msg \<Rightarrow>
               if Message.thread msg \<noteq> id' thr
               then (Inl (APIError ''Thread message mismatch'' INVALID_INPUT), w)
               else if ArtifactCreateBody.type body = APP
               then
                 (let (secret, w1) =
                        (if ArtifactCreateBody.shared body = Some True
                         then (let (s, w') = getSecret w in (Some s, w'))
                         else (None, w));
                      artifact =
                        newAppArtifact (objectIds w1 (issued w1)) (now w1) (id' thr) (id' msg)
                          (source_code body) (ArtifactCreateBody.metadata body) secret
                          (ArtifactCreateBody.name body) (ArtifactCreateBody.description body);
                      w2 = persistAndFlush artifact (w1\<lparr>issued := Suc (issued w1)\<rparr>)
                  in (Inr (toDto artifact), w2))
               else (Inl (APIError ''Artifact type not supported'' INVALID_INPUT), w)))"

definition readArtifact :: "string \<Rightarrow> World \<Rightarrow> (error + js_object) \<times> World" where
  "readArtifact artifact_id w =
     (case findOneOrFail (\<lambda>a. id' a = artifact_id) (filters True w) (artifacts w) of
        Inl e \<Rightarrow> (Inl e, w)
      | Inr artifact \<Rightarrow> (Inr (toDto artifact), w))"


definition updateArtifact ::
  "string \<Rightarrow> ArtifactUpdateBody \<Rightarrow> World \<Rightarrow> (error + js_object) \<times> World" where
  "updateArtifact artifact_id body w =
     (case findOneOrFail (\<lambda>a. id' a = artifact_id) (filters True w) (artifacts w) of
        Inl e \<Rightarrow> (Inl e, w)
      | Inr artifact \<Rightarrow>
          (let a1 = artifact\<lparr>Artifact.metadata :=
                      getUpdatedValue (ArtifactUpdateBody.metadata body)
                        (Artifact.metadata artifact)\<rparr>;
               a2 = a1\<lparr>Artifact.name :=
                      getUpdatedValue (ArtifactUpdateBody.name body) (Artifact.name a1)\<rparr>;
               a3 = a2\<lparr>Artifact.description :=
                      getUpdatedValue (ArtifactUpdateBody.description body)
                        (Artifact.description a2)\<rparr>;
               (a4, w1) =
                 (if ArtifactUpdateBody.shared body = Some True
                  then (let (s, w') = getSecret w in (a3\<lparr>accessSecret := Some s\<rparr>, w'))
                  else if ArtifactUpdateBody.shared body = Some False
                  then (a3\<lparr>accessSecret := None\<rparr>, w)
                  else (a3, w))
           in (Inr (toDto a4), flush a4 w1)))"

definition deleteArtifact :: "string \<Rightarrow> World \<Rightarrow> (error + DeleteResponse) \<times> World" where
  "deleteArtifact artifact_id w =
     (case findOneOrFail (\<lambda>a. id' a = artifact_id) (filters True w) (artifacts w) of
        Inl e \<Rightarrow> (Inl e, w)
      | Inr artifact \<Rightarrow>
          (Inr (createDeleteResponse artifact_id ''artifact''),
           flush (delete (now w) artifact) w))"

text \<open>
  An internal query, past every filter: the row of the artifact table with a given id.
  The service has no such operation; the theorems use it to speak about stored rows.
\<close>

definition artifactById :: "string \<Rightarrow> World \<Rightarrow> Artifact option" where
  "artifactById i w = find (\<lambda>row. id' row = i) (artifacts w)"

text \<open>The stored access secret of the artifact with a given id, past every filter.\<close>

definition secretOf :: "string \<Rightarrow> World \<Rightarrow> string option" where
  "secretOf i w = (case artifactById i w of None \<Rightarrow> None | Some row \<Rightarrow> accessSecret row)"

text \<open>The 24 bytes that the next call of \<open>getSecret\<close> draws from the random source.\<close>

definition nextDraw :: "World \<Rightarrow> 8 word list" where
  "nextDraw w = map (entropy w) [drawn w ..< drawn w + 24]"

text \<open>The world that an update leaves behind.\<close>

definition afterUpdate :: "string \<Rightarrow> ArtifactUpdateBody \<Rightarrow> World \<Rightarrow> World" where
  "afterUpdate artifact_id body w = snd (updateArtifact artifact_id body w)"

section \<open>Tool usage\<close>

text \<open>
  Modelled from the spec: the enum \<open>ToolType\<close> (not among the sources) discriminates the
  usage kinds; \<open>SYSTEM\<close> is the one of this class, the siblings are the rest. The system
  tool kinds and the configuration blob are type parameters.
\<close>

datatype ToolType = SYSTEM | OtherToolType string

record ('tool, 'config) SystemUsageInput =
  toolId :: 'tool
  config :: "'config option"

record ('tool, 'config) SystemUsage =
  type :: ToolType
  toolId :: 'tool
  config :: "'config option"

text \<open>
  The constructor: the field initialiser, then the two assignments. The constructor of
  the base class \<open>ToolUsage\<close> (not among the sources) takes no argument.
\<close>

definition newSystemUsage ::
  "('tool, 'config) SystemUsageInput \<Rightarrow> ('tool, 'config) SystemUsage" where
  "newSystemUsage input =
     \<lparr>SystemUsage.type = SYSTEM,
      SystemUsage.toolId = SystemUsageInput.toolId input,
      SystemUsage.config = SystemUsageInput.config input\<rparr>"

section \<open>Example data\<close>

text \<open>Concrete artifacts and worlds at which the theorems below are instantiated.\<close>

definition app_artifact :: Artifact where
  "app_artifact =
     \<lparr>id' = ''art_1'', createdAt = 1700000000123, deletedAt = None, Artifact.type = ''app'',
      thread = ''thread_1'', message = ''msg_1'', metadata = None, name = Some ''demo'',
      description = None, accessSecret = Some ''s3cr3t'', sourceCode = Some ''print(1)''\<rparr>"

definition private_artifact :: Artifact where
  "private_artifact =
     \<lparr>id' = ''art_2'', createdAt = 1700000000456, deletedAt = None, Artifact.type = ''app'',
      thread = ''thread_1'', message = ''msg_1'', metadata = Some [(''k'', JString ''v'')],
      name = None, description = Some ''d'', accessSecret = None, sourceCode = Some ''x''\<rparr>"

definition empty_secret_artifact :: Artifact where
  "empty_secret_artifact =
     \<lparr>id' = ''art_3'', createdAt = 1700000000789, deletedAt = None, Artifact.type = ''app'',
      thread = ''thread_1'', message = ''msg_1'', metadata = None, name = None,
      description = None, accessSecret = Some '''', sourceCode = Some ''x''\<rparr>"

definition chart_artifact :: Artifact where
  "chart_artifact =
     \<lparr>id' = ''art_4'', createdAt = 1700000000999, deletedAt = None, Artifact.type = ''chart'',
      thread = ''thread_1'', message = ''msg_1'', metadata = None, name = Some ''n'',
      description = None, accessSecret = Some ''s'', sourceCode = None\<rparr>"

definition example_world :: World where
  "example_world =
     \<lparr>threads =
        [\<lparr>id' = ''thread_1'', createdAt = 1, deletedAt = None\<rparr>,
         \<lparr>id' = ''thread_2'', createdAt = 2, deletedAt = None\<rparr>],
      messages =
        [\<lparr>id' = ''msg_1'', createdAt = 3, deletedAt = None, Message.thread = ''thread_1''\<rparr>,
         \<lparr>id' = ''msg_2'', createdAt = 4, deletedAt = None, Message.thread = ''thread_2''\<rparr>],
      artifacts = [app_artifact, private_artifact],
      principalAccess = (\<lambda>i. True),
      now = 1700000001000,
      objectIds = (\<lambda>n. ''art_9''),
      issued = 0,
      entropy = (\<lambda>n. of_nat n),
      drawn = 0\<rparr>"

text \<open>The same world with a random source that returns the byte 0 forever.\<close>

definition repeating_world :: World where
  "repeating_world = example_world\<lparr>entropy := (\<lambda>n. 0)\<rparr>"

definition create_body :: ArtifactCreateBody where
  "create_body =
     \<lparr>thread_id = ''thread_1'', message_id = ''msg_1'', ArtifactCreateBody.type = ''app'',
      source_code = Some ''print(1)'', ArtifactCreateBody.metadata = None,
      ArtifactCreateBody.shared = Some True, ArtifactCreateBody.name = None,
      ArtifactCreateBody.description = None\<rparr>"

definition empty_update :: ArtifactUpdateBody where
  "empty_update =
     \<lparr>ArtifactUpdateBody.metadata = Omitted, ArtifactUpdateBody.name = Omitted,
      ArtifactUpdateBody.description = Omitted, ArtifactUpdateBody.shared = None\<rparr>"

definition share_update :: ArtifactUpdateBody where
  "share_update = empty_update\<lparr>ArtifactUpdateBody.shared := Some True\<rparr>"

definition unshare_update :: ArtifactUpdateBody where
  "unshare_update = empty_update\<lparr>ArtifactUpdateBody.shared := Some False\<rparr>"

section \<open>Facts about lookups and objects\<close>

lemma find_unique:
  "distinct (map f xs) \<Longrightarrow> x \<in> set xs \<Longrightarrow> P x \<Longrightarrow> (\<And>y. P y \<Longrightarrow> f y = f x) \<Longrightarrow>
   find P xs = Some x"
proof (induction xs)
  case Nil
  then show ?case by simp
next
  case (Cons y ys)
  show ?case
  proof (cases "P y")
    case True
    then have "f y = f x" by (rule Cons.prems(4))
    with Cons.prems(1,2) have "y = x" by (auto simp: image_iff)
    with True show ?thesis by simp
  next
    case False
    with Cons.prems(2,3) have x: "x \<in> set ys" by auto
    from Cons.prems(1) have d: "distinct (map f ys)" by simp
    have "find P ys = Some x"
      by (rule Cons.IH [OF d x Cons.prems(3)]) (rule Cons.prems(4))
    with False show ?thesis by simp
  qed
qed

lemma toSharedDto_APP:
  "Artifact.type artifact = APP \<Longrightarrow> toSharedDto artifact = Some
        [(''id'', JString (id' artifact)),
         (''object'', JString ''artifact.shared''),
         (''type'', JString (Artifact.type artifact)),
         (''metadata'',
            JObject (case Artifact.metadata artifact of None \<Rightarrow> [] | Some m \<Rightarrow> m)),
         (''created_at'', JNumber (createdAt artifact div 1000)),
         (''source_code'', optString (sourceCode artifact)),
         (''share_url'', JString (share_url artifact)),
         (''name'', optString (Artifact.name artifact)),
         (''description'',
            JString (case Artifact.description artifact of None \<Rightarrow> '''' | Some d \<Rightarrow> d))]"
  by (simp add: toSharedDto_def assign_def)

lemma toSharedDto_Some_type:
  "toSharedDto artifact = Some dto \<Longrightarrow> Artifact.type artifact = APP"
  by (simp add: toSharedDto_def Let_def split: if_splits)

lemma toDto_APP:
  "Artifact.type artifact = APP \<Longrightarrow> toDto artifact =
        [(''id'', JString (id' artifact)),
         (''object'', JString ''artifact''),
         (''type'', JString (Artifact.type artifact)),
         (''metadata'',
            JObject (case Artifact.metadata artifact of None \<Rightarrow> [] | Some m \<Rightarrow> m)),
         (''created_at'', JNumber (createdAt artifact div 1000)),
         (''source_code'', optString (sourceCode artifact)),
         (''share_url'', JString (share_url artifact)),
         (''name'', optString (Artifact.name artifact)),
         (''description'',
            JString (case Artifact.description artifact of None \<Rightarrow> '''' | Some d \<Rightarrow> d)),
         (''thread_id'', JString (Artifact.thread artifact)),
         (''message_id'', JString (message artifact))]"
  by (simp add: toDto_def toSharedDto_APP assign_def)



lemma example_types:
  "Artifact.type app_artifact = APP" "Artifact.type private_artifact = APP"
  "Artifact.type empty_secret_artifact = APP" "Artifact.type chart_artifact \<noteq> APP"
  by (simp_all add: app_artifact_def private_artifact_def empty_secret_artifact_def
      chart_artifact_def APP_def)

section \<open>Facts about the service\<close>

lemma same_id_same_row:
  assumes "distinct (map id' rows)" "a \<in> set rows" "row \<in> set rows" "id' row = id' a"
  shows "row = a"
  using assms by (meson distinct_map inj_onD)

lemma lookup_by_id:
  assumes "distinct (map id' rows)" "a \<in> set rows" "active a"
  shows "findOneOrFail (\<lambda>e. id' e = id' a) active rows = Inr a"
proof -
  have "find (\<lambda>e. id' e = id' a \<and> active e) rows = Some a"
    using assms(1,2) by (rule find_unique) (simp_all add: assms(3))
  then show ?thesis by (simp add: findOneOrFail_def)
qed

lemma lookup_exists:
  assumes "a \<in> set rows" "cond a" "active a"
  obtains b where "findOneOrFail cond active rows = Inr b" "b \<in> set rows" "cond b" "active b"
proof -
  from assms have "find (\<lambda>e. cond e \<and> active e) rows \<noteq> None"
    by (auto simp: find_None_iff)
  then obtain b where b: "find (\<lambda>e. cond e \<and> active e) rows = Some b" by blast
  then have "b \<in> set rows" "cond b" "active b"
    by (auto simp: find_Some_iff)
  with b that show ?thesis by (simp add: findOneOrFail_def)
qed

lemma lookup_missing:
  assumes "\<And>e. e \<in> set rows \<Longrightarrow> \<not> (cond e \<and> active e)"
  shows "findOneOrFail cond active rows = Inl NotFoundError"
proof -
  from assms have "find (\<lambda>e. cond e \<and> active e) rows = None"
    by (simp add: find_None_iff)
  then show ?thesis by (simp add: findOneOrFail_def)
qed

lemma replace_same_row:
  assumes "distinct (map id' rows)" "a \<in> set rows"
  shows "map (\<lambda>row. if id' row = id' a then a else row) rows = rows"
proof -
  have "map (\<lambda>row. if id' row = id' a then a else row) rows = map (\<lambda>row. row) rows"
    by (rule map_cong) (auto dest: same_id_same_row [OF assms])
  then show ?thesis by simp
qed

lemma find_replaced:
  assumes "a \<in> set rows" "id' a' = id' a"
  shows "find (\<lambda>row. id' row = id' a)
           (map (\<lambda>row. if id' row = id' a then a' else row) rows) = Some a'"
  using assms by (induction rows) auto

lemma ids_replaced:
  assumes "id' a' = id' a"
  shows "map id' (map (\<lambda>row. if id' row = id' (a :: 'a BaseEntity_scheme) then a' else row) rows)
           = map id' rows"
  using assms by (induction rows) auto

lemma getSecret_eq:
  "getSecret w =
     (base64url (map (entropy w) [drawn w ..< drawn w + 24]), w\<lparr>drawn := drawn w + 24\<rparr>)"
  by (simp add: getSecret_def randomBytes_def)

lemma updateArtifact_found:
  assumes "distinct (map id' (artifacts w))" "a \<in> set (artifacts w)" "filters True w a"
  shows "updateArtifact (id' a) body w =
     (let a' = a\<lparr>Artifact.metadata :=
                   getUpdatedValue (ArtifactUpdateBody.metadata body) (Artifact.metadata a),
                 Artifact.name :=
                   getUpdatedValue (ArtifactUpdateBody.name body) (Artifact.name a),
                 Artifact.description :=
                   getUpdatedValue (ArtifactUpdateBody.description body) (Artifact.description a),
                 accessSecret :=
                   (if ArtifactUpdateBody.shared body = Some True
                    then Some (base64url (map (entropy w) [drawn w ..< drawn w + 24]))
                    else if ArtifactUpdateBody.shared body = Some False then None
                    else accessSecret a)\<rparr>
      in (Inr (toDto a'),
          w\<lparr>artifacts := map (\<lambda>row. if id' row = id' a then a' else row) (artifacts w),
            drawn := (if ArtifactUpdateBody.shared body = Some True
                      then drawn w + 24 else drawn w)\<rparr>))"
proof -
  have "findOneOrFail (\<lambda>e. id' e = id' a) (filters True w) (artifacts w) = Inr a"
    using assms by (rule lookup_by_id)
  then show ?thesis
    by (simp add: updateArtifact_def getSecret_eq flush_def Let_def)
qed

section \<open>Facts about the encoding of secrets\<close>

lemma distinct_alphabet: "distinct alphabet"
  unfolding alphabet_def by simp

lemma length_alphabet: "length alphabet = 64"
  unfolding alphabet_def by simp

lemma digit_inj: "i < 64 \<Longrightarrow> j < 64 \<Longrightarrow> digit i = digit j \<Longrightarrow> i = j"
  unfolding digit_def using distinct_alphabet length_alphabet
  by (simp add: nth_eq_iff_index_eq)

lemma digit_mem: "i < 64 \<Longrightarrow> digit i \<in> set alphabet"
  unfolding digit_def using length_alphabet by simp

lemma unat_byte: "unat (a :: 8 word) < 256"
  using unsigned_less [of a] by simp

lemma sextet1: "unat (a :: 8 word) div 4 < 64"
  using unat_byte [of a] by arith
lemma sextet2: "unat (a :: 8 word) mod 4 * 16 + unat (b :: 8 word) div 16 < 64"
  using unat_byte [of b] by arith
lemma sextet3: "unat (b :: 8 word) mod 16 * 4 + unat (c :: 8 word) div 64 < 64"
  using unat_byte [of c] by arith
lemma sextet4: "unat (c :: 8 word) mod 64 < 64"
  by simp
lemma sextet2': "unat (a :: 8 word) mod 4 * 16 < 64"
  by arith
lemma sextet3': "unat (b :: 8 word) mod 16 * 4 < 64"
  by arith

lemmas sextets = sextet1 sextet2 sextet3 sextet4 sextet2' sextet3'

lemma length_base64url: "length (base64url bs) = (4 * length bs + 2) div 3"
  by (induction bs rule: base64url.induct) simp_all

lemma set_base64url: "set (base64url bs) \<subseteq> set alphabet"
  by (induction bs rule: base64url.induct) (simp_all add: digit_mem sextets)

lemma split_sum:
  fixes k r :: nat
  assumes "r < n" "r' < n" "k * n + r = k' * n + r'"
  shows "k = k' \<and> r = r'"
proof -
  have "(k * n + r) div n = k" "(k * n + r) mod n = r"
    using assms(1) by simp_all
  moreover have "(k' * n + r') div n = k'" "(k' * n + r') mod n = r'"
    using assms(2) by simp_all
  ultimately show ?thesis using assms(3) by metis
qed

lemma div_mod_eq:
  fixes a a' :: nat
  assumes "a div n = a' div n" "a mod n = a' mod n"
  shows "a = a'"
  using assms by (metis div_mult_mod_eq)

lemma hi_nibble: "unat (b :: 8 word) div 16 < 16"
  using unat_byte [of b] by (simp add: div_less_iff_less_mult)

lemma hi_pair: "unat (c :: 8 word) div 64 < 4"
  using unat_byte [of c] by (simp add: div_less_iff_less_mult)

lemma block3_inj:
  fixes a b c a' b' c' :: "8 word"
  assumes 1: "unat a div 4 = unat a' div 4"
    and 2: "unat a mod 4 * 16 + unat b div 16 = unat a' mod 4 * 16 + unat b' div 16"
    and 3: "unat b mod 16 * 4 + unat c div 64 = unat b' mod 16 * 4 + unat c' div 64"
    and 4: "unat c mod 64 = unat c' mod 64"
  shows "a = a' \<and> b = b' \<and> c = c'"
proof -
  from split_sum [OF hi_nibble hi_nibble 2]
  have a4: "unat a mod 4 = unat a' mod 4" and b16: "unat b div 16 = unat b' div 16" by simp_all
  from split_sum [OF hi_pair hi_pair 3]
  have b4: "unat b mod 16 = unat b' mod 16" and c64: "unat c div 64 = unat c' div 64" by simp_all
  have "unat a = unat a'" using 1 a4 by (rule div_mod_eq)
  moreover have "unat b = unat b'" using b16 b4 by (rule div_mod_eq)
  moreover have "unat c = unat c'" using c64 4 by (rule div_mod_eq)
  ultimately show ?thesis by (simp add: word_unat_eq_iff)
qed

lemma block2_inj:
  fixes a b a' b' :: "8 word"
  assumes 1: "unat a div 4 = unat a' div 4"
    and 2: "unat a mod 4 * 16 + unat b div 16 = unat a' mod 4 * 16 + unat b' div 16"
    and 3: "unat b mod 16 * 4 = unat b' mod 16 * 4"
  shows "a = a' \<and> b = b'"
proof -
  from split_sum [OF hi_nibble hi_nibble 2]
  have a4: "unat a mod 4 = unat a' mod 4" and b16: "unat b div 16 = unat b' div 16" by simp_all
  from 3 have b4: "unat b mod 16 = unat b' mod 16" by simp
  have "unat a = unat a'" using 1 a4 by (rule div_mod_eq)
  moreover have "unat b = unat b'" using b16 b4 by (rule div_mod_eq)
  ultimately show ?thesis by (simp add: word_unat_eq_iff)
qed

lemma block1_inj:
  fixes a a' :: "8 word"
  assumes 1: "unat a div 4 = unat a' div 4"
    and 2: "unat a mod 4 * 16 = unat a' mod 4 * 16"
  shows "a = a'"
proof -
  from 2 have a4: "unat a mod 4 = unat a' mod 4" by simp
  have "unat a = unat a'" using 1 a4 by (rule div_mod_eq)
  then show ?thesis by (simp add: word_unat_eq_iff)
qed

lemma base64url_inj:
  "length xs = length ys \<Longrightarrow> base64url xs = base64url ys \<Longrightarrow> xs = ys"
proof (induction xs arbitrary: ys rule: base64url.induct)
  case (1 a b c rest)
  from 1(2) obtain a' b' c' rest' where ys: "ys = a' # b' # c' # rest'"
    by (cases ys rule: base64url.cases) auto
  from 1(3) have d: "digit (unat a div 4) = digit (unat a' div 4)"
      "digit (unat a mod 4 * 16 + unat b div 16) = digit (unat a' mod 4 * 16 + unat b' div 16)"
      "digit (unat b mod 16 * 4 + unat c div 64) = digit (unat b' mod 16 * 4 + unat c' div 64)"
      "digit (unat c mod 64) = digit (unat c' mod 64)"
      and r: "base64url rest = base64url rest'"
    unfolding ys by simp_all
  have "a = a' \<and> b = b' \<and> c = c'"
    by (rule block3_inj) (rule digit_inj [OF _ _ d(1)] digit_inj [OF _ _ d(2)]
        digit_inj [OF _ _ d(3)] digit_inj [OF _ _ d(4)], rule sextets, rule sextets)+
  moreover have "rest = rest'"
    using 1(1) [OF _ r] 1(2) unfolding ys by simp
  ultimately show ?case unfolding ys by simp
next
  case (2 a b)
  from 2(1) obtain a' b' where ys: "ys = [a', b']"
    by (cases ys rule: base64url.cases) auto
  from 2(2) have d: "digit (unat a div 4) = digit (unat a' div 4)"
      "digit (unat a mod 4 * 16 + unat b div 16) = digit (unat a' mod 4 * 16 + unat b' div 16)"
      "digit (unat b mod 16 * 4) = digit (unat b' mod 16 * 4)"
    unfolding ys by simp_all
  have "a = a' \<and> b = b'"
    by (rule block2_inj) (rule digit_inj [OF _ _ d(1)] digit_inj [OF _ _ d(2)]
        digit_inj [OF _ _ d(3)], rule sextets, rule sextets)+
  then show ?case unfolding ys by simp
next
  case (3 a)
  from 3(1) obtain a' where ys: "ys = [a']"
    by (cases ys rule: base64url.cases) auto
  from 3(2) have d: "digit (unat a div 4) = digit (unat a' div 4)"
      "digit (unat a mod 4 * 16) = digit (unat a' mod 4 * 16)"
    unfolding ys by simp_all
  have "a = a'"
    by (rule block1_inj) (rule digit_inj [OF _ _ d(1)] digit_inj [OF _ _ d(2)],
        rule sextets, rule sextets)+
  then show ?case unfolding ys by simp
next
  case 4
  then show ?case by simp
qed

section \<open>Facts about updates\<close>

lemma updateArtifact_effect:
  assumes "distinct (map id' (artifacts w))" "a \<in> set (artifacts w)" "filters True w a"
  obtains a' where
    "fst (updateArtifact (id' a) body w) = Inr (toDto a')"
    "artifacts (afterUpdate (id' a) body w)
       = map (\<lambda>row. if id' row = id' a then a' else row) (artifacts w)"
    "artifactById (id' a) (afterUpdate (id' a) body w) = Some a'"
    "distinct (map id' (artifacts (afterUpdate (id' a) body w)))"
    "a' \<in> set (artifacts (afterUpdate (id' a) body w))"
    "filters True (afterUpdate (id' a) body w) a'"
    "entropy (afterUpdate (id' a) body w) = entropy w"
    "drawn (afterUpdate (id' a) body w)
       = (if ArtifactUpdateBody.shared body = Some True then drawn w + 24 else drawn w)"
    "id' a' = id' a \<and> createdAt a' = createdAt a \<and> deletedAt a' = deletedAt a
       \<and> Artifact.type a' = Artifact.type a \<and> Artifact.thread a' = Artifact.thread a
       \<and> message a' = message a \<and> sourceCode a' = sourceCode a"
    "Artifact.metadata a'
       = getUpdatedValue (ArtifactUpdateBody.metadata body) (Artifact.metadata a)"
    "Artifact.name a' = getUpdatedValue (ArtifactUpdateBody.name body) (Artifact.name a)"
    "Artifact.description a'
       = getUpdatedValue (ArtifactUpdateBody.description body) (Artifact.description a)"
    "accessSecret a'
       = (if ArtifactUpdateBody.shared body = Some True then Some (base64url (nextDraw w))
          else if ArtifactUpdateBody.shared body = Some False then None
          else accessSecret a)"
proof -
  define a' where "a' = a\<lparr>Artifact.metadata :=
                   getUpdatedValue (ArtifactUpdateBody.metadata body) (Artifact.metadata a),
                 Artifact.name :=
                   getUpdatedValue (ArtifactUpdateBody.name body) (Artifact.name a),
                 Artifact.description :=
                   getUpdatedValue (ArtifactUpdateBody.description body) (Artifact.description a),
                 accessSecret :=
                   (if ArtifactUpdateBody.shared body = Some True
                    then Some (base64url (map (entropy w) [drawn w ..< drawn w + 24]))
                    else if ArtifactUpdateBody.shared body = Some False then None
                    else accessSecret a)\<rparr>"
  define w' where "w' = w\<lparr>artifacts := map (\<lambda>row. if id' row = id' a then a' else row) (artifacts w),
            drawn := (if ArtifactUpdateBody.shared body = Some True
                      then drawn w + 24 else drawn w)\<rparr>"
  have upd: "updateArtifact (id' a) body w = (Inr (toDto a'), w')"
    unfolding a'_def w'_def using updateArtifact_found [OF assms, of body]
    by (simp add: Let_def)
  have after: "afterUpdate (id' a) body w = w'"
    by (simp add: afterUpdate_def upd)
  have same_id: "id' a' = id' a"
    by (simp add: a'_def)
  have 1: "fst (updateArtifact (id' a) body w) = Inr (toDto a')"
    by (simp add: upd)
  have 2: "artifacts (afterUpdate (id' a) body w)
       = map (\<lambda>row. if id' row = id' a then a' else row) (artifacts w)"
    by (simp add: after w'_def)
  have 3: "artifactById (id' a) (afterUpdate (id' a) body w) = Some a'"
    unfolding artifactById_def 2 using assms(2) same_id by (rule find_replaced)
  have 4: "distinct (map id' (artifacts (afterUpdate (id' a) body w)))"
    unfolding 2 using assms(1) by (simp only: ids_replaced [OF same_id])
  have 5: "a' \<in> set (artifacts (afterUpdate (id' a) body w))"
    unfolding 2 using assms(2) by (auto simp: image_iff)
  have 6: "filters True (afterUpdate (id' a) body w) a'"
    using assms(3) by (simp add: after w'_def filters_def a'_def)
  have 7: "entropy (afterUpdate (id' a) body w) = entropy w"
    by (simp add: after w'_def)
  have 8: "drawn (afterUpdate (id' a) body w)
       = (if ArtifactUpdateBody.shared body = Some True then drawn w + 24 else drawn w)"
    by (simp add: after w'_def)
  have 9: "id' a' = id' a \<and> createdAt a' = createdAt a \<and> deletedAt a' = deletedAt a
       \<and> Artifact.type a' = Artifact.type a \<and> Artifact.thread a' = Artifact.thread a
       \<and> message a' = message a \<and> sourceCode a' = sourceCode a"
    by (simp add: a'_def)
  have 10: "Artifact.metadata a'
       = getUpdatedValue (ArtifactUpdateBody.metadata body) (Artifact.metadata a)"
    by (simp add: a'_def)
  have 11: "Artifact.name a' = getUpdatedValue (ArtifactUpdateBody.name body) (Artifact.name a)"
    by (simp add: a'_def)
  have 12: "Artifact.description a'
       = getUpdatedValue (ArtifactUpdateBody.description body) (Artifact.description a)"
    by (simp add: a'_def)
  have 13: "accessSecret a'
       = (if ArtifactUpdateBody.shared body = Some True then Some (base64url (nextDraw w))
          else if ArtifactUpdateBody.shared body = Some False then None
          else accessSecret a)"
    by (simp add: a'_def nextDraw_def)
  from that [OF 1 2 3 4 5 6 7 8 9 10 11 12 13] show thesis .
qed

lemma length_nextDraw: "length (nextDraw w) = 24"
  by (simp add: nextDraw_def)

lemma length_secret: "length (base64url (nextDraw w)) = 32"
  by (simp add: length_base64url length_nextDraw)

lemma secret_not_empty: "base64url (nextDraw w) \<noteq> ''''"
  using length_secret [of w] by auto

lemma secret_eq_iff:
  "length previous = 24 \<Longrightarrow>
   (base64url (nextDraw w) = base64url previous) = (nextDraw w = previous)"
  using base64url_inj [of "nextDraw w" previous] by (auto simp: length_nextDraw)

lemma updateArtifact_nothing:
  assumes "distinct (map id' (artifacts w))" "a \<in> set (artifacts w)" "filters True w a"
    and "ArtifactUpdateBody.metadata body = Omitted" "ArtifactUpdateBody.name body = Omitted"
    and "ArtifactUpdateBody.description body = Omitted" "ArtifactUpdateBody.shared body = None"
  shows "updateArtifact (id' a) body w = (Inr (toDto a), w)"
    and "readArtifact (id' a) w = (Inr (toDto a), w)"
proof -
  have found: "findOneOrFail (\<lambda>e. id' e = id' a) (filters True w) (artifacts w) = Inr a"
    using assms(1-3) by (rule lookup_by_id)
  show "readArtifact (id' a) w = (Inr (toDto a), w)"
    by (simp add: readArtifact_def found)
  show "updateArtifact (id' a) body w = (Inr (toDto a), w)"
    using updateArtifact_found [OF assms(1-3), of body]
    by (simp add: assms(4-7) getUpdatedValue_def Let_def replace_same_row [OF assms(1,2)])
qed

section \<open>Two concrete secrets\<close>

lemma replicate_24:
  "replicate 24 (0 :: 8 word) = [0,0,0,0,0,0,0,0,0,0,0,0,0,0,0,0,0,0,0,0,0,0,0,0]"
  by (simp add: numeral_eq_Suc)

lemma digit_0: "digit 0 = CHR ''A''"
  by (simp add: digit_def alphabet_def)

lemma secret_of_zeros: "base64url (replicate 24 0) = ''AAAAAAAAAAAAAAAAAAAAAAAAAAAAAAAA''"
  unfolding replicate_24 by (simp add: digit_0)

lemma upt_24:
  "[0..<24] = [0,1,2,3,4,5,6,7,8,9,10,11,12,13,14,15,16,17,18,19,20,21,22,23]"
  by (simp add: upt_rec)

lemma secret_of_counting:
  "base64url (map of_nat [0..<24]) = ''AAECAwQFBgcICQoLDA0ODxAREhMUFRYX''"
  unfolding upt_24 by (simp add: digit_def alphabet_def)

section \<open>Serialisation of unhandled types\<close>

text \<open>
  C2. An artifact whose type is not the handled variant \<open>APP\<close> is not serialised:
  \<open>toSharedDto\<close> has no fallback branch and yields no DTO at all (in particular not the
  base-shape object it has built).
\<close>

theorem toSharedDto_unhandled_type:
  "Artifact.type artifact \<noteq> APP \<Longrightarrow> toSharedDto artifact = None"
  by (simp add: toSharedDto_def Let_def)

theorem toSharedDto_unhandled_type_witness:
  "Artifact.type chart_artifact \<noteq> APP \<and> toSharedDto chart_artifact = None"
proof -
  have h: "Artifact.type chart_artifact \<noteq> APP"
    by (simp add: chart_artifact_def APP_def)
  from toSharedDto_unhandled_type [OF h] h show ?thesis by simp
qed

section \<open>The share URL\<close>




section \<open>The shape of the DTOs\<close>

text \<open>
  C10. For every artifact that \<open>toSharedDto\<close> serialises: absent metadata becomes the
  empty object and an absent description the empty string; the shared DTO has no
  \<open>thread_id\<close> and no \<open>message_id\<close>; \<open>toDto\<close> has the properties of the shared DTO and
  those two, agrees with the shared DTO on every property but \<open>object\<close>,
  \<open>thread_id\<close> and \<open>message_id\<close>, and sets these three to the tag \<open>artifact\<close>, the id of
  the thread and the id of the message.
\<close>

theorem dto_normalisation_and_shape:
  assumes "toSharedDto artifact = Some dto"
  shows "(Artifact.metadata artifact = None \<longrightarrow> getProp dto ''metadata'' = Some (JObject []))
       \<and> (Artifact.description artifact = None \<longrightarrow>
            getProp dto ''description'' = Some (JString ''''))
       \<and> ''thread_id'' \<notin> keys dto \<and> ''message_id'' \<notin> keys dto
       \<and> getProp dto ''object'' = Some (JString ''artifact.shared'')
       \<and> keys (toDto artifact) = keys dto \<union> {''thread_id'', ''message_id''}
       \<and> (\<forall>k. k \<notin> {''object'', ''thread_id'', ''message_id''} \<longrightarrow>
            getProp (toDto artifact) k = getProp dto k)
       \<and> getProp (toDto artifact) ''object'' = Some (JString ''artifact'')
       \<and> getProp (toDto artifact) ''thread_id'' = Some (JString (Artifact.thread artifact))
       \<and> getProp (toDto artifact) ''message_id'' = Some (JString (message artifact))"
proof -
  from assms have t: "Artifact.type artifact = APP" by (rule toSharedDto_Some_type)
  note d = toSharedDto_APP [OF t, unfolded assms, simplified]
  note f = toDto_APP [OF t]
  have 1: "Artifact.metadata artifact = None \<longrightarrow> getProp dto ''metadata'' = Some (JObject [])"
    unfolding d by (simp add: getProp_def)
  have 2: "Artifact.description artifact = None \<longrightarrow>
      getProp dto ''description'' = Some (JString '''')"
    unfolding d by (simp add: getProp_def)
  have 3: "''thread_id'' \<notin> keys dto \<and> ''message_id'' \<notin> keys dto"
    unfolding d by (simp add: keys_def)
  have 4: "getProp dto ''object'' = Some (JString ''artifact.shared'')"
    unfolding d by (simp add: getProp_def)
  have 5: "keys (toDto artifact) = keys dto \<union> {''thread_id'', ''message_id''}"
    unfolding d f by (simp add: keys_def insert_commute)
  have 6: "\<forall>k. k \<notin> {''object'', ''thread_id'', ''message_id''} \<longrightarrow>
      getProp (toDto artifact) k = getProp dto k"
    unfolding d f by (simp add: getProp_def)
  have 7: "getProp (toDto artifact) ''object'' = Some (JString ''artifact'')"
    unfolding f by (simp add: getProp_def)
  have 8: "getProp (toDto artifact) ''thread_id'' = Some (JString (Artifact.thread artifact))"
    unfolding f by (simp add: getProp_def)
  have 9: "getProp (toDto artifact) ''message_id'' = Some (JString (message artifact))"
    unfolding f by (simp add: getProp_def)
  from 1 2 3 4 5 6 7 8 9 show ?thesis by blast
qed

theorem dto_normalisation_and_shape_witness:
  "getProp (the (toSharedDto app_artifact)) ''metadata'' = Some (JObject [])
   \<and> getProp (the (toSharedDto app_artifact)) ''description'' = Some (JString '''')
   \<and> ''thread_id'' \<notin> keys (the (toSharedDto app_artifact))
   \<and> getProp (toDto app_artifact) ''name'' = getProp (the (toSharedDto app_artifact)) ''name''
   \<and> getProp (toDto app_artifact) ''thread_id'' = Some (JString ''thread_1'')"
proof -
  have a: "toSharedDto app_artifact = Some (the (toSharedDto app_artifact))"
    using toSharedDto_APP [OF example_types(1)] by simp
  have m: "Artifact.metadata app_artifact = None" "Artifact.description app_artifact = None"
    "Artifact.thread app_artifact = ''thread_1''"
    by (simp_all add: app_artifact_def)
  have k: "''name'' \<notin> {''object'', ''thread_id'', ''message_id''}"
    by simp
  from dto_normalisation_and_shape [OF a] m k show ?thesis
    by simp
qed

section \<open>Constructing a system usage\<close>

text \<open>
  C9. Constructing a \<open>SystemUsage\<close> from \<open>{toolId, config}\<close> yields the record whose
  discriminator is \<open>SYSTEM\<close> and whose \<open>toolId\<close> and \<open>config\<close> are the given ones,
  unchanged; the result is determined by these two inputs alone.
\<close>

theorem newSystemUsage_fields:
  "newSystemUsage \<lparr>SystemUsageInput.toolId = t, SystemUsageInput.config = c\<rparr>
     = \<lparr>SystemUsage.type = SYSTEM, SystemUsage.toolId = t, SystemUsage.config = c\<rparr>
   \<and> SystemUsage.type (newSystemUsage input) = SYSTEM
   \<and> SystemUsage.toolId (newSystemUsage input) = SystemUsageInput.toolId input
   \<and> SystemUsage.config (newSystemUsage input) = SystemUsageInput.config input"
  by (simp add: newSystemUsage_def)

section \<open>Reading through the share link\<close>



section \<open>Creating an artifact for a message of another thread\<close>

text \<open>
  C4. When the thread of the request exists, the message of the request exists (message
  ids being unique) and the message belongs to a thread other than the given one,
  \<open>createArtifact\<close> fails with the error code \<open>INVALID_INPUT\<close> and leaves the world,
  the artifact table included, exactly as it was.
\<close>

theorem createArtifact_thread_message_mismatch:
  assumes "distinct (map id' (messages w))"
    and "thr \<in> set (threads w)" "id' thr = thread_id body" "filters True w thr"
    and "msg \<in> set (messages w)" "id' msg = message_id body" "filters True w msg"
    and "Message.thread msg \<noteq> thread_id body"
  shows "createArtifact body w
           = (Inl (APIError ''Thread message mismatch'' INVALID_INPUT), w)"
proof -
  obtain thr' where t: "findOneOrFail (\<lambda>t. id' t = thread_id body) (filters True w) (threads w)
      = Inr thr'" and t': "id' thr' = thread_id body"
    using assms(2-4) by (rule lookup_exists [where cond = "\<lambda>t. id' t = thread_id body"])
  have "findOneOrFail (\<lambda>e. id' e = id' msg) (filters True w) (messages w) = Inr msg"
    using assms(1,5,7) by (rule lookup_by_id)
  then have m: "findOneOrFail (\<lambda>m. id' m = message_id body) (filters True w) (messages w)
      = Inr msg"
    by (simp add: assms(6))
  show ?thesis
    using assms(8) by (simp add: createArtifact_def t m t')
qed

theorem createArtifact_thread_message_mismatch_witness:
  "createArtifact (create_body\<lparr>message_id := ''msg_2''\<rparr>) example_world
     = (Inl (APIError ''Thread message mismatch'' INVALID_INPUT), example_world)"
proof -
  let ?thr = "\<lparr>id' = ''thread_1'', createdAt = 1, deletedAt = None\<rparr> :: Thread"
  let ?msg = "\<lparr>id' = ''msg_2'', createdAt = 4, deletedAt = None,
                Message.thread = ''thread_2''\<rparr> :: Message"
  let ?body = "create_body\<lparr>message_id := ''msg_2''\<rparr>"
  have 1: "distinct (map id' (messages example_world))"
    by (simp add: example_world_def)
  have 2: "?thr \<in> set (threads example_world)" "id' ?thr = thread_id ?body"
      "filters True example_world ?thr"
    by (simp_all add: example_world_def create_body_def filters_def)
  have 3: "?msg \<in> set (messages example_world)" "id' ?msg = message_id ?body"
      "filters True example_world ?msg"
    by (simp_all add: example_world_def create_body_def filters_def)
  have 4: "Message.thread ?msg \<noteq> thread_id ?body"
    by (simp add: create_body_def)
  from createArtifact_thread_message_mismatch [OF 1 2 3 4] show ?thesis .
qed

section \<open>Soft delete\<close>

text \<open>
  C8. For every artifact the caller can read (ids being unique), \<open>deleteArtifact\<close>
  returns the confirmation that references the id and the kind \<open>artifact\<close>; afterwards
  the row is still in the table, changed only in its deletion mark, every other row and
  the rest of the world are unchanged, and \<open>readArtifact\<close> on the same id fails with the
  not-found error.
\<close>

theorem deleteArtifact_soft_delete:
  assumes "distinct (map id' (artifacts w))" "a \<in> set (artifacts w)" "filters True w a"
  shows "fst (deleteArtifact (id' a) w)
           = Inr \<lparr>deleted_id = id' a, deleted_kind = ''artifact''\<rparr>
       \<and> snd (deleteArtifact (id' a) w)
           = w\<lparr>artifacts := map (\<lambda>row. if row = a then a\<lparr>deletedAt := Some (now w)\<rparr> else row)
                               (artifacts w)\<rparr>
       \<and> artifactById (id' a) (snd (deleteArtifact (id' a) w))
           = Some (a\<lparr>deletedAt := Some (now w)\<rparr>)
       \<and> fst (readArtifact (id' a) (snd (deleteArtifact (id' a) w))) = Inl NotFoundError"
proof -
  let ?a' = "a\<lparr>deletedAt := Some (now w)\<rparr>"
  let ?rows = "map (\<lambda>row. if id' row = id' a then ?a' else row) (artifacts w)"
  have found: "findOneOrFail (\<lambda>e. id' e = id' a) (filters True w) (artifacts w) = Inr a"
    using assms by (rule lookup_by_id)
  have del: "deleteArtifact (id' a) w
      = (Inr \<lparr>deleted_id = id' a, deleted_kind = ''artifact''\<rparr>, w\<lparr>artifacts := ?rows\<rparr>)"
    by (simp add: deleteArtifact_def found flush_def delete_def createDeleteResponse_def)
  have rows: "?rows = map (\<lambda>row. if row = a then ?a' else row) (artifacts w)"
    by (rule map_cong) (auto dest: same_id_same_row [OF assms(1,2)])
  have after: "snd (deleteArtifact (id' a) w) = w\<lparr>artifacts := ?rows\<rparr>"
    by (simp add: del)
  have c1: "fst (deleteArtifact (id' a) w)
      = Inr \<lparr>deleted_id = id' a, deleted_kind = ''artifact''\<rparr>"
    by (simp add: del)
  have c2: "snd (deleteArtifact (id' a) w)
      = w\<lparr>artifacts := map (\<lambda>row. if row = a then ?a' else row) (artifacts w)\<rparr>"
    unfolding after rows ..
  have c3: "artifactById (id' a) (snd (deleteArtifact (id' a) w)) = Some ?a'"
    unfolding after using find_replaced [OF assms(2), of ?a'] by (simp add: artifactById_def)
  have "findOneOrFail (\<lambda>e. id' e = id' a) (filters True (w\<lparr>artifacts := ?rows\<rparr>)) ?rows
      = Inl NotFoundError"
    by (rule lookup_missing) (auto simp: filters_def)
  then have c4: "fst (readArtifact (id' a) (snd (deleteArtifact (id' a) w))) = Inl NotFoundError"
    unfolding after by (simp add: readArtifact_def)
  from c1 c2 c3 c4 show ?thesis by blast
qed

theorem deleteArtifact_soft_delete_witness:
  "fst (deleteArtifact ''art_1'' example_world)
     = Inr \<lparr>deleted_id = ''art_1'', deleted_kind = ''artifact''\<rparr>
   \<and> artifactById ''art_1'' (snd (deleteArtifact ''art_1'' example_world))
     = Some (app_artifact\<lparr>deletedAt := Some 1700000001000\<rparr>)
   \<and> fst (readArtifact ''art_1'' (snd (deleteArtifact ''art_1'' example_world)))
     = Inl NotFoundError"
proof -
  have d: "distinct (map id' (artifacts example_world))"
    by (simp add: example_world_def app_artifact_def private_artifact_def)
  have a: "app_artifact \<in> set (artifacts example_world)"
    by (simp add: example_world_def)
  have f: "filters True example_world app_artifact"
    by (simp add: example_world_def app_artifact_def filters_def)
  have i: "id' app_artifact = ''art_1''" "now example_world = 1700000001000"
    by (simp_all add: app_artifact_def example_world_def)
  note t = deleteArtifact_soft_delete [OF d a f, unfolded i]
  from t show ?thesis by blast
qed

section \<open>Partial update\<close>

text \<open>
  C5. For every artifact the caller can read (ids being unique), \<open>updateArtifact\<close>
  returns the DTO of the stored row and changes only what the request provides: omitted
  metadata, name or description leave that field as it was, omitted \<open>shared\<close> leaves the
  access secret as it was; id, type, thread, message, creation time, deletion mark and
  source code never change, and no other row is touched. With every field omitted the
  update returns what \<open>readArtifact\<close> returns and leaves the world identical.
\<close>

theorem updateArtifact_changes_only_provided:
  assumes "distinct (map id' (artifacts w))" "a \<in> set (artifacts w)" "filters True w a"
  shows "\<exists>a'. artifactById (id' a) (afterUpdate (id' a) body w) = Some a'
       \<and> fst (updateArtifact (id' a) body w) = Inr (toDto a')
       \<and> (ArtifactUpdateBody.metadata body = Omitted \<longrightarrow>
            Artifact.metadata a' = Artifact.metadata a)
       \<and> (ArtifactUpdateBody.name body = Omitted \<longrightarrow> Artifact.name a' = Artifact.name a)
       \<and> (ArtifactUpdateBody.description body = Omitted \<longrightarrow>
            Artifact.description a' = Artifact.description a)
       \<and> (ArtifactUpdateBody.shared body = None \<longrightarrow> accessSecret a' = accessSecret a)
       \<and> id' a' = id' a \<and> createdAt a' = createdAt a \<and> deletedAt a' = deletedAt a
       \<and> Artifact.type a' = Artifact.type a \<and> Artifact.thread a' = Artifact.thread a
       \<and> message a' = message a \<and> sourceCode a' = sourceCode a
       \<and> (\<forall>row \<in> set (artifacts w). id' row \<noteq> id' a \<longrightarrow>
            row \<in> set (artifacts (afterUpdate (id' a) body w)))
       \<and> (ArtifactUpdateBody.metadata body = Omitted \<and> ArtifactUpdateBody.name body = Omitted
          \<and> ArtifactUpdateBody.description body = Omitted
          \<and> ArtifactUpdateBody.shared body = None \<longrightarrow>
            updateArtifact (id' a) body w = readArtifact (id' a) w
            \<and> afterUpdate (id' a) body w = w)"
proof -
  from assms obtain a' where
    r: "fst (updateArtifact (id' a) body w) = Inr (toDto a')"
    and rows: "artifacts (afterUpdate (id' a) body w)
       = map (\<lambda>row. if id' row = id' a then a' else row) (artifacts w)"
    and byId: "artifactById (id' a) (afterUpdate (id' a) body w) = Some a'"
    and fixed: "id' a' = id' a \<and> createdAt a' = createdAt a \<and> deletedAt a' = deletedAt a
       \<and> Artifact.type a' = Artifact.type a \<and> Artifact.thread a' = Artifact.thread a
       \<and> message a' = message a \<and> sourceCode a' = sourceCode a"
    and m: "Artifact.metadata a'
       = getUpdatedValue (ArtifactUpdateBody.metadata body) (Artifact.metadata a)"
    and n: "Artifact.name a' = getUpdatedValue (ArtifactUpdateBody.name body) (Artifact.name a)"
    and d: "Artifact.description a'
       = getUpdatedValue (ArtifactUpdateBody.description body) (Artifact.description a)"
    and s: "accessSecret a'
       = (if ArtifactUpdateBody.shared body = Some True then Some (base64url (nextDraw w))
          else if ArtifactUpdateBody.shared body = Some False then None
          else accessSecret a)"
    by (rule updateArtifact_effect [where body = body])
  have m': "ArtifactUpdateBody.metadata body = Omitted \<longrightarrow>
      Artifact.metadata a' = Artifact.metadata a"
    by (simp add: m getUpdatedValue_def)
  have n': "ArtifactUpdateBody.name body = Omitted \<longrightarrow> Artifact.name a' = Artifact.name a"
    by (simp add: n getUpdatedValue_def)
  have d': "ArtifactUpdateBody.description body = Omitted \<longrightarrow>
      Artifact.description a' = Artifact.description a"
    by (simp add: d getUpdatedValue_def)
  have s': "ArtifactUpdateBody.shared body = None \<longrightarrow> accessSecret a' = accessSecret a"
    by (simp add: s)
  have others: "\<forall>row \<in> set (artifacts w). id' row \<noteq> id' a \<longrightarrow>
      row \<in> set (artifacts (afterUpdate (id' a) body w))"
    unfolding rows by (auto simp: image_iff)
  have noop: "ArtifactUpdateBody.metadata body = Omitted \<and> ArtifactUpdateBody.name body = Omitted
      \<and> ArtifactUpdateBody.description body = Omitted
      \<and> ArtifactUpdateBody.shared body = None \<longrightarrow>
        updateArtifact (id' a) body w = readArtifact (id' a) w
        \<and> afterUpdate (id' a) body w = w"
    using updateArtifact_nothing [OF assms, of body] by (simp add: afterUpdate_def)
  from fixed have f: "id' a' = id' a" "createdAt a' = createdAt a" "deletedAt a' = deletedAt a"
      "Artifact.type a' = Artifact.type a" "Artifact.thread a' = Artifact.thread a"
      "message a' = message a" "sourceCode a' = sourceCode a"
    by simp_all
  show ?thesis
    by (rule exI [of _ a']) (intro conjI byId r m' n' d' s' f others noop)
qed

theorem updateArtifact_changes_only_provided_witness:
  "updateArtifact ''art_1'' empty_update example_world = readArtifact ''art_1'' example_world
   \<and> afterUpdate ''art_1'' empty_update example_world = example_world
   \<and> artifactById ''art_1'' example_world = Some app_artifact
   \<and> fst (readArtifact ''art_1'' example_world) = Inr (toDto app_artifact)"
proof -
  have d: "distinct (map id' (artifacts example_world))"
    by (simp add: example_world_def app_artifact_def private_artifact_def)
  have a: "app_artifact \<in> set (artifacts example_world)"
    by (simp add: example_world_def)
  have f: "filters True example_world app_artifact"
    by (simp add: example_world_def app_artifact_def filters_def)
  have i: "id' app_artifact = ''art_1''"
    by (simp add: app_artifact_def)
  have e: "ArtifactUpdateBody.metadata empty_update = Omitted"
      "ArtifactUpdateBody.name empty_update = Omitted"
      "ArtifactUpdateBody.description empty_update = Omitted"
      "ArtifactUpdateBody.shared empty_update = None"
    by (simp_all add: empty_update_def)
  from updateArtifact_changes_only_provided [OF d a f, of empty_update, unfolded i] e
  obtain a' where a': "artifactById ''art_1'' (afterUpdate ''art_1'' empty_update example_world)
      = Some a'"
    and r: "fst (updateArtifact ''art_1'' empty_update example_world) = Inr (toDto a')"
    and same: "updateArtifact ''art_1'' empty_update example_world
      = readArtifact ''art_1'' example_world"
      "afterUpdate ''art_1'' empty_update example_world = example_world"
    by blast
  have b: "artifactById ''art_1'' example_world = Some app_artifact"
    by (simp add: artifactById_def example_world_def app_artifact_def)
  with a' same(2) have "a' = app_artifact" by simp
  with r same b show ?thesis by simp
qed

section \<open>Sharing on update\<close>

text \<open>
  C3, as stated, fails: nothing compares a new secret with an earlier one. With a
  random source that returns the same bytes again, two successive updates with
  \<open>shared: true\<close> store the same secret.
\<close>

theorem updateArtifact_secret_reused_counterexample:
  "secretOf ''art_1'' (afterUpdate ''art_1'' share_update repeating_world)
     = Some ''AAAAAAAAAAAAAAAAAAAAAAAAAAAAAAAA''
   \<and> secretOf ''art_1''
        (afterUpdate ''art_1'' share_update (afterUpdate ''art_1'' share_update repeating_world))
     = Some ''AAAAAAAAAAAAAAAAAAAAAAAAAAAAAAAA''"
proof -
  let ?w1 = "afterUpdate ''art_1'' share_update repeating_world"
  have d: "distinct (map id' (artifacts repeating_world))"
    by (simp add: repeating_world_def example_world_def app_artifact_def private_artifact_def)
  have a: "app_artifact \<in> set (artifacts repeating_world)"
    by (simp add: repeating_world_def example_world_def)
  have f: "filters True repeating_world app_artifact"
    by (simp add: repeating_world_def example_world_def app_artifact_def filters_def)
  have i: "id' app_artifact = ''art_1''"
    by (simp add: app_artifact_def)
  have sh: "ArtifactUpdateBody.shared share_update = Some True"
    by (simp add: share_update_def empty_update_def)
  note zeros = secret_of_zeros
  have n0: "nextDraw repeating_world = replicate 24 0"
    by (simp add: nextDraw_def repeating_world_def map_replicate_const)
  from updateArtifact_effect [OF d a f, of share_update, unfolded i] obtain a1 where
    b1: "artifactById ''art_1'' ?w1 = Some a1"
    and d1: "distinct (map id' (artifacts ?w1))"
    and m1: "a1 \<in> set (artifacts ?w1)"
    and f1: "filters True ?w1 a1"
    and e1: "entropy ?w1 = entropy repeating_world"
    and i1: "id' a1 = ''art_1'' \<and> createdAt a1 = createdAt app_artifact
       \<and> deletedAt a1 = deletedAt app_artifact
       \<and> Artifact.type a1 = Artifact.type app_artifact
       \<and> Artifact.thread a1 = Artifact.thread app_artifact
       \<and> message a1 = message app_artifact \<and> sourceCode a1 = sourceCode app_artifact"
    and s1: "accessSecret a1
       = (if ArtifactUpdateBody.shared share_update = Some True
          then Some (base64url (nextDraw repeating_world))
          else if ArtifactUpdateBody.shared share_update = Some False then None
          else accessSecret app_artifact)"
    by blast
  have z: "entropy repeating_world = (\<lambda>n. 0)"
    by (simp add: repeating_world_def)
  have "nextDraw ?w1 = map (entropy repeating_world) [drawn ?w1 ..< drawn ?w1 + 24]"
    by (simp only: nextDraw_def e1)
  then have n1: "nextDraw ?w1 = replicate 24 0"
    by (simp add: z map_replicate_const)
  from i1 have i1': "id' a1 = ''art_1''" by simp
  from updateArtifact_effect [OF d1 m1 f1, of share_update, unfolded i1'] obtain a2 where
    b2: "artifactById ''art_1'' (afterUpdate ''art_1'' share_update ?w1) = Some a2"
    and s2: "accessSecret a2
       = (if ArtifactUpdateBody.shared share_update = Some True
          then Some (base64url (nextDraw ?w1))
          else if ArtifactUpdateBody.shared share_update = Some False then None
          else accessSecret a1)"
    by blast
  have "secretOf ''art_1'' ?w1 = Some ''AAAAAAAAAAAAAAAAAAAAAAAAAAAAAAAA''"
    by (simp add: secretOf_def b1 s1 sh n0 zeros)
  moreover have "secretOf ''art_1'' (afterUpdate ''art_1'' share_update ?w1)
      = Some ''AAAAAAAAAAAAAAAAAAAAAAAAAAAAAAAA''"
    by (simp add: secretOf_def b2 s2 sh n1 zeros)
  ultimately show ?thesis by blast
qed

text \<open>
  C3, amended. For every artifact the caller can read (ids being unique),
  \<open>updateArtifact\<close> with \<open>shared: true\<close> replaces the access secret by a newly generated
  one, the URL-safe encoding of the next 24 bytes of the random source, whatever the
  secret was before; it equals the encoding of 24 earlier bytes exactly when the bytes
  drawn are those bytes. A second update with \<open>shared: true\<close> draws the following 24
  bytes, and the two secrets differ exactly when the two draws differ. With
  \<open>shared: false\<close> the secret is cleared; with \<open>shared\<close> omitted it stays as it was.
\<close>

theorem updateArtifact_shared_secret:
  assumes "distinct (map id' (artifacts w))" "a \<in> set (artifacts w)" "filters True w a"
  shows "(ArtifactUpdateBody.shared body = Some True \<longrightarrow>
            secretOf (id' a) (afterUpdate (id' a) body w) = Some (base64url (nextDraw w))
          \<and> drawn (afterUpdate (id' a) body w) = drawn w + 24
          \<and> (\<forall>previous. length previous = 24 \<longrightarrow>
               (secretOf (id' a) (afterUpdate (id' a) body w) = Some (base64url previous))
                 = (nextDraw w = previous))
          \<and> (ArtifactUpdateBody.shared body' = Some True \<longrightarrow>
               nextDraw (afterUpdate (id' a) body w)
                 = map (entropy w) [drawn w + 24 ..< drawn w + 48]
             \<and> secretOf (id' a) (afterUpdate (id' a) body' (afterUpdate (id' a) body w))
                 = Some (base64url (nextDraw (afterUpdate (id' a) body w)))
             \<and> ((secretOf (id' a) (afterUpdate (id' a) body' (afterUpdate (id' a) body w))
                    = secretOf (id' a) (afterUpdate (id' a) body w))
                 = (nextDraw (afterUpdate (id' a) body w) = nextDraw w))))
       \<and> (ArtifactUpdateBody.shared body = Some False \<longrightarrow>
            secretOf (id' a) (afterUpdate (id' a) body w) = None)
       \<and> (ArtifactUpdateBody.shared body = None \<longrightarrow>
            secretOf (id' a) (afterUpdate (id' a) body w) = accessSecret a)"
proof -
  let ?w1 = "afterUpdate (id' a) body w"
  from assms obtain a1 where
    b1: "artifactById (id' a) ?w1 = Some a1"
    and d1: "distinct (map id' (artifacts ?w1))"
    and m1: "a1 \<in> set (artifacts ?w1)"
    and f1: "filters True ?w1 a1"
    and e1: "entropy ?w1 = entropy w"
    and n1: "drawn ?w1
       = (if ArtifactUpdateBody.shared body = Some True then drawn w + 24 else drawn w)"
    and i1: "id' a1 = id' a \<and> createdAt a1 = createdAt a \<and> deletedAt a1 = deletedAt a
       \<and> Artifact.type a1 = Artifact.type a \<and> Artifact.thread a1 = Artifact.thread a
       \<and> message a1 = message a \<and> sourceCode a1 = sourceCode a"
    and s1: "accessSecret a1
       = (if ArtifactUpdateBody.shared body = Some True then Some (base64url (nextDraw w))
          else if ArtifactUpdateBody.shared body = Some False then None
          else accessSecret a)"
    by (rule updateArtifact_effect [where body = body])
  have sec1: "secretOf (id' a) ?w1 = accessSecret a1"
    by (simp add: secretOf_def b1)
  from i1 have id1: "id' a1 = id' a" by simp
  from d1 m1 f1 obtain a2 where
    b2: "artifactById (id' a1) (afterUpdate (id' a1) body' ?w1) = Some a2"
    and s2: "accessSecret a2
       = (if ArtifactUpdateBody.shared body' = Some True then Some (base64url (nextDraw ?w1))
          else if ArtifactUpdateBody.shared body' = Some False then None
          else accessSecret a1)"
    by (rule updateArtifact_effect [where body = body'])
  have sec2: "secretOf (id' a) (afterUpdate (id' a) body' ?w1) = accessSecret a2"
    using b2 by (simp add: secretOf_def id1)
  have clear: "ArtifactUpdateBody.shared body = Some False \<longrightarrow> secretOf (id' a) ?w1 = None"
    by (simp add: sec1 s1)
  have keep: "ArtifactUpdateBody.shared body = None \<longrightarrow> secretOf (id' a) ?w1 = accessSecret a"
    by (simp add: sec1 s1)
  have share: "ArtifactUpdateBody.shared body = Some True \<longrightarrow>
            secretOf (id' a) ?w1 = Some (base64url (nextDraw w))
          \<and> drawn ?w1 = drawn w + 24
          \<and> (\<forall>previous. length previous = 24 \<longrightarrow>
               (secretOf (id' a) ?w1 = Some (base64url previous)) = (nextDraw w = previous))
          \<and> (ArtifactUpdateBody.shared body' = Some True \<longrightarrow>
               nextDraw ?w1 = map (entropy w) [drawn w + 24 ..< drawn w + 48]
             \<and> secretOf (id' a) (afterUpdate (id' a) body' ?w1)
                 = Some (base64url (nextDraw ?w1))
             \<and> ((secretOf (id' a) (afterUpdate (id' a) body' ?w1) = secretOf (id' a) ?w1)
                 = (nextDraw ?w1 = nextDraw w)))"
  proof (intro impI conjI allI)
    assume t: "ArtifactUpdateBody.shared body = Some True"
    show new: "secretOf (id' a) ?w1 = Some (base64url (nextDraw w))"
      by (simp add: sec1 s1 t)
    show "drawn ?w1 = drawn w + 24"
      by (simp add: n1 t)
    show "(secretOf (id' a) ?w1 = Some (base64url previous)) = (nextDraw w = previous)"
      if "length previous = 24" for previous
      using secret_eq_iff [OF that, of w] by (simp add: new)
    assume t': "ArtifactUpdateBody.shared body' = Some True"
    show "nextDraw ?w1 = map (entropy w) [drawn w + 24 ..< drawn w + 48]"
      by (simp add: nextDraw_def e1 n1 t add.commute)
    show again: "secretOf (id' a) (afterUpdate (id' a) body' ?w1)
        = Some (base64url (nextDraw ?w1))"
      by (simp add: sec2 s2 t')
    show "(secretOf (id' a) (afterUpdate (id' a) body' ?w1) = secretOf (id' a) ?w1)
        = (nextDraw ?w1 = nextDraw w)"
      using secret_eq_iff [OF length_nextDraw, of ?w1 w] by (simp add: new again)
  qed
  from share clear keep show ?thesis by (intro conjI)
qed

theorem updateArtifact_shared_secret_witness:
  "secretOf ''art_1'' (afterUpdate ''art_1'' share_update example_world)
     = Some ''AAECAwQFBgcICQoLDA0ODxAREhMUFRYX''
   \<and> secretOf ''art_1''
        (afterUpdate ''art_1'' share_update (afterUpdate ''art_1'' share_update example_world))
       \<noteq> secretOf ''art_1'' (afterUpdate ''art_1'' share_update example_world)
   \<and> secretOf ''art_1'' (afterUpdate ''art_1'' unshare_update example_world) = None
   \<and> secretOf ''art_1'' (afterUpdate ''art_1'' empty_update example_world) = Some ''s3cr3t''"
proof -
  let ?w1 = "afterUpdate ''art_1'' share_update example_world"
  have d: "distinct (map id' (artifacts example_world))"
    by (simp add: example_world_def app_artifact_def private_artifact_def)
  have a: "app_artifact \<in> set (artifacts example_world)"
    by (simp add: example_world_def)
  have f: "filters True example_world app_artifact"
    by (simp add: example_world_def app_artifact_def filters_def)
  have i: "id' app_artifact = ''art_1''"
    by (simp add: app_artifact_def)
  have sh: "ArtifactUpdateBody.shared share_update = Some True"
      "ArtifactUpdateBody.shared unshare_update = Some False"
      "ArtifactUpdateBody.shared empty_update = None"
    by (simp_all add: share_update_def unshare_update_def empty_update_def)
  have e: "entropy example_world = of_nat" "drawn example_world = 0"
    by (simp_all add: example_world_def)
  have n0: "nextDraw example_world = map of_nat [0..<24]"
    by (simp add: nextDraw_def e)
  note s = updateArtifact_shared_secret [OF d a f, of share_update share_update, unfolded i]
  note u = updateArtifact_shared_secret [OF d a f, of unshare_update share_update, unfolded i]
  note k = updateArtifact_shared_secret [OF d a f, of empty_update share_update, unfolded i]
  from s sh(1) have 1: "secretOf ''art_1'' ?w1 = Some (base64url (nextDraw example_world))"
    and 2: "nextDraw ?w1
       = map (entropy example_world) [drawn example_world + 24 ..< drawn example_world + 48]"
    and 3: "(secretOf ''art_1'' (afterUpdate ''art_1'' share_update ?w1) = secretOf ''art_1'' ?w1)
       = (nextDraw ?w1 = nextDraw example_world)"
    by blast+
  have "[24..<48] = 24 # [25..<48]" "[0..<24] = (0::nat) # [1..<24]"
    by (simp_all add: upt_rec)
  then have "nextDraw ?w1 \<noteq> nextDraw example_world"
    unfolding 2 n0 e by simp
  with 3 have c2: "secretOf ''art_1'' (afterUpdate ''art_1'' share_update ?w1)
      \<noteq> secretOf ''art_1'' ?w1"
    by simp
  from 1 have c1: "secretOf ''art_1'' ?w1 = Some ''AAECAwQFBgcICQoLDA0ODxAREhMUFRYX''"
    by (simp add: n0 secret_of_counting)
  from u sh(2) have c3: "secretOf ''art_1'' (afterUpdate ''art_1'' unshare_update example_world)
      = None"
    by blast
  from k sh(3) have "secretOf ''art_1'' (afterUpdate ''art_1'' empty_update example_world)
      = accessSecret app_artifact"
    by blast
  then have c4: "secretOf ''art_1'' (afterUpdate ''art_1'' empty_update example_world)
      = Some ''s3cr3t''"
    by (simp add: app_artifact_def)
  from c1 c2 c3 c4 show ?thesis by (intro conjI)
qed

section \<open>Sharing on creation\<close>

text \<open>
  C6. For every valid create request (the thread and the message exist, message ids
  being unique, the message belongs to the thread, the type is \<open>APP\<close>), \<open>createArtifact\<close>
  inserts one row and returns its DTO. With \<open>shared: true\<close> the row carries a secret
  drawn for it, the URL-safe encoding (32 characters of the URL-safe alphabet) of the
  next 24 bytes of the random source, which are consumed, and the returned
  \<open>share_url\<close> is the non-empty path with the row's id and that secret. With \<open>shared\<close>
  omitted or false the row has no secret, nothing is drawn, and \<open>share_url\<close> is empty.
\<close>

theorem createArtifact_share_url:
  assumes "distinct (map id' (messages w))"
    and "thr \<in> set (threads w)" "id' thr = thread_id body" "filters True w thr"
    and "msg \<in> set (messages w)" "id' msg = message_id body" "filters True w msg"
    and "Message.thread msg = thread_id body"
    and "ArtifactCreateBody.type body = APP"
  shows "\<exists>art w'. createArtifact body w = (Inr (toDto art), w')
       \<and> artifacts w' = artifacts w @ [art]
       \<and> id' art = objectIds w (issued w)
       \<and> (ArtifactCreateBody.shared body = Some True \<longrightarrow>
            accessSecret art = Some (base64url (nextDraw w))
          \<and> drawn w' = drawn w + 24
          \<and> length (nextDraw w) = 24
          \<and> length (base64url (nextDraw w)) = 32
          \<and> set (base64url (nextDraw w)) \<subseteq> set alphabet
          \<and> getProp (toDto art) ''share_url''
              = Some (JString (''/v1/artifacts/'' @ id' art @ ''/shared?secret=''
                               @ base64url (nextDraw w)))
          \<and> getProp (toDto art) ''share_url'' \<noteq> Some (JString ''''))
       \<and> (ArtifactCreateBody.shared body \<noteq> Some True \<longrightarrow>
            accessSecret art = None
          \<and> drawn w' = drawn w
          \<and> getProp (toDto art) ''share_url'' = Some (JString ''''))"
proof -
  obtain thr' where t: "findOneOrFail (\<lambda>t. id' t = thread_id body) (filters True w) (threads w)
      = Inr thr'" and t': "id' thr' = thread_id body"
    using assms(2-4) by (rule lookup_exists [where cond = "\<lambda>t. id' t = thread_id body"])
  have "findOneOrFail (\<lambda>e. id' e = id' msg) (filters True w) (messages w) = Inr msg"
    using assms(1,5,7) by (rule lookup_by_id)
  then have m: "findOneOrFail (\<lambda>m. id' m = message_id body) (filters True w) (messages w)
      = Inr msg"
    by (simp add: assms(6))
  show ?thesis
  proof (cases "ArtifactCreateBody.shared body = Some True")
    case True
    let ?secret = "base64url (nextDraw w)"
    let ?art = "newAppArtifact (objectIds w (issued w)) (now w) (id' thr') (id' msg)
        (source_code body) (ArtifactCreateBody.metadata body) (Some ?secret)
        (ArtifactCreateBody.name body) (ArtifactCreateBody.description body)"
    let ?w' = "w\<lparr>artifacts := artifacts w @ [?art], issued := Suc (issued w),
        drawn := drawn w + 24\<rparr>"
    have c: "createArtifact body w = (Inr (toDto ?art), ?w')"
      by (simp add: createArtifact_def t m t' assms(8,9) True getSecret_eq nextDraw_def
          persistAndFlush_def Let_def)
    have ty: "Artifact.type ?art = APP"
      by (simp add: newAppArtifact_def)
    have url: "getProp (toDto ?art) ''share_url'' = Some (JString (share_url ?art))"
      unfolding toDto_APP [OF ty] by (simp add: getProp_def)
    have su: "share_url ?art
        = ''/v1/artifacts/'' @ id' ?art @ ''/shared?secret='' @ ?secret"
      using secret_not_empty [of w] by (simp add: share_url_def newAppArtifact_def)
    have p1: "artifacts ?w' = artifacts w @ [?art]" by simp
    have p2: "id' ?art = objectIds w (issued w)" by (simp add: newAppArtifact_def)
    have p3: "accessSecret ?art = Some ?secret" by (simp add: newAppArtifact_def)
    have p4: "drawn ?w' = drawn w + 24" by simp
    have p5: "getProp (toDto ?art) ''share_url''
        = Some (JString (''/v1/artifacts/'' @ id' ?art @ ''/shared?secret='' @ ?secret))"
      by (simp only: url su)
    have p6: "getProp (toDto ?art) ''share_url'' \<noteq> Some (JString '''')"
      unfolding p5 by simp
    show ?thesis
      apply (rule exI [of _ ?art])
      apply (rule exI [of _ ?w'])
      using True
      by (intro conjI impI c p1 p2 p3 p4 p5 p6 length_nextDraw length_secret set_base64url)
        simp_all
  next
    case False
    let ?art = "newAppArtifact (objectIds w (issued w)) (now w) (id' thr') (id' msg)
        (source_code body) (ArtifactCreateBody.metadata body) None
        (ArtifactCreateBody.name body) (ArtifactCreateBody.description body)"
    let ?w' = "w\<lparr>artifacts := artifacts w @ [?art], issued := Suc (issued w)\<rparr>"
    have c: "createArtifact body w = (Inr (toDto ?art), ?w')"
      by (simp add: createArtifact_def t m t' assms(8,9) False persistAndFlush_def Let_def)
    have ty: "Artifact.type ?art = APP"
      by (simp add: newAppArtifact_def)
    have url: "getProp (toDto ?art) ''share_url'' = Some (JString (share_url ?art))"
      unfolding toDto_APP [OF ty] by (simp add: getProp_def)
    have su: "share_url ?art = ''''"
      by (simp add: share_url_def newAppArtifact_def)
    have p1: "artifacts ?w' = artifacts w @ [?art]" by simp
    have p2: "id' ?art = objectIds w (issued w)" by (simp add: newAppArtifact_def)
    have p3: "accessSecret ?art = None" by (simp add: newAppArtifact_def)
    have p4: "drawn ?w' = drawn w" by simp
    have p5: "getProp (toDto ?art) ''share_url'' = Some (JString '''')"
      by (simp only: url su)
    show ?thesis
      apply (rule exI [of _ ?art])
      apply (rule exI [of _ ?w'])
      using False
      by (intro conjI impI c p1 p2 p3 p4 p5) simp_all
  qed
qed

theorem createArtifact_share_url_witness:
  "(\<exists>art w'. createArtifact create_body example_world = (Inr (toDto art), w')
      \<and> artifacts w' = artifacts example_world @ [art]
      \<and> accessSecret art = Some ''AAECAwQFBgcICQoLDA0ODxAREhMUFRYX''
      \<and> getProp (toDto art) ''share_url''
          = Some (JString ''/v1/artifacts/art_9/shared?secret=AAECAwQFBgcICQoLDA0ODxAREhMUFRYX''))
   \<and> (\<exists>art w'. createArtifact (create_body\<lparr>ArtifactCreateBody.shared := None\<rparr>) example_world
          = (Inr (toDto art), w')
      \<and> accessSecret art = None
      \<and> getProp (toDto art) ''share_url'' = Some (JString ''''))"
proof -
  let ?thr = "\<lparr>id' = ''thread_1'', createdAt = 1, deletedAt = None\<rparr> :: Thread"
  let ?msg = "\<lparr>id' = ''msg_1'', createdAt = 3, deletedAt = None,
                Message.thread = ''thread_1''\<rparr> :: Message"
  let ?private = "create_body\<lparr>ArtifactCreateBody.shared := None\<rparr>"
  have 1: "distinct (map id' (messages example_world))"
    by (simp add: example_world_def)
  have 2: "?thr \<in> set (threads example_world)" "filters True example_world ?thr"
    by (simp_all add: example_world_def filters_def)
  have 3: "?msg \<in> set (messages example_world)" "filters True example_world ?msg"
    by (simp_all add: example_world_def filters_def)
  have b: "id' ?thr = thread_id create_body" "id' ?msg = message_id create_body"
      "Message.thread ?msg = thread_id create_body" "ArtifactCreateBody.type create_body = APP"
      "ArtifactCreateBody.shared create_body = Some True"
    by (simp_all add: create_body_def APP_def)
  have p: "id' ?thr = thread_id ?private" "id' ?msg = message_id ?private"
      "Message.thread ?msg = thread_id ?private" "ArtifactCreateBody.type ?private = APP"
      "ArtifactCreateBody.shared ?private \<noteq> Some True"
    by (simp_all add: create_body_def APP_def)
  have n0: "nextDraw example_world = map of_nat [0..<24]"
    by (simp add: nextDraw_def example_world_def)
  have o: "objectIds example_world (issued example_world) = ''art_9''"
    by (simp add: example_world_def)
  from createArtifact_share_url [OF 1 2(1) b(1) 2(2) 3(1) b(2) 3(2) b(3) b(4)] b(5)
  obtain art w' where "createArtifact create_body example_world = (Inr (toDto art), w')"
    "artifacts w' = artifacts example_world @ [art]"
    "id' art = objectIds example_world (issued example_world)"
    "accessSecret art = Some (base64url (nextDraw example_world))"
    "getProp (toDto art) ''share_url''
       = Some (JString (''/v1/artifacts/'' @ id' art @ ''/shared?secret=''
                        @ base64url (nextDraw example_world)))"
    by blast
  then have with_secret: "\<exists>art w'. createArtifact create_body example_world = (Inr (toDto art), w')
      \<and> artifacts w' = artifacts example_world @ [art]
      \<and> accessSecret art = Some ''AAECAwQFBgcICQoLDA0ODxAREhMUFRYX''
      \<and> getProp (toDto art) ''share_url''
          = Some (JString ''/v1/artifacts/art_9/shared?secret=AAECAwQFBgcICQoLDA0ODxAREhMUFRYX'')"
    by (simp add: n0 o secret_of_counting)
  from createArtifact_share_url [OF 1 2(1) p(1) 2(2) 3(1) p(2) 3(2) p(3) p(4)] p(5)
  have without_secret: "\<exists>art w'. createArtifact ?private example_world = (Inr (toDto art), w')
      \<and> accessSecret art = None
      \<and> getProp (toDto art) ''share_url'' = Some (JString '''')"
    by blast
  from with_secret without_secret show ?thesis by (rule conjI)
qed

end
